theory Spec2Isabelle
  imports Complex_Main "HOL-Library.Word"
begin

section \<open>The wasm VM's API service (vms/wasmvm/service.go)\<close>

text \<open>
  A shallow embedding of the service of the wasm VM: the coercion of an API argument to
  a Go value (\<open>ArgAPI.toFnArg\<close>), the validation of an invocation request
  (\<open>InvokeArgs.validate\<close>) and the three operations \<open>Invoke\<close>, \<open>CreateContract\<close>
  and \<open>GetTx\<close>. Go's \<open>error\<close> results are sums, the fields of the VM that the service
  touches are a record that every operation returns updated, and what the service calls
  outside this file (key parsing, transaction construction, the transaction's ID) is a
  record of functions that every operation takes as its first arguments.
\<close>

subsection \<open>Go values\<close>

text \<open>
  A floating-point number is its sign, its mantissa and its binary exponent, or an
  infinity, or a NaN. The value of \<open>Finite s m e\<close> is \<open>(-1)^s * m * 2^e\<close>. Both
  \<open>float32\<close> and \<open>float64\<close> values have this form, with different bounds on \<open>m\<close> and
  \<open>e\<close>, which nothing below depends on.
\<close>

datatype ieee = Finite bool nat int | Infinity bool | NaN

text \<open>
  A value of type \<open>interface{}\<close>: its dynamic type and the value. The four numeric types
  that \<open>toFnArg\<close> asserts, and the other dynamic types a decoded request can hold.
\<close>

datatype iface =
    GoNil
  | GoBool bool
  | GoInt32 "32 word"
  | GoInt64 "64 word"
  | GoFloat32 ieee
  | GoFloat64 ieee
  | GoString string
  | GoSlice "iface list"

text \<open>\<open>type ArgAPI struct { Type string; Value interface{} }\<close>\<close>

record ArgAPI =
  Type :: string
  Value :: iface

text \<open>
  An identifier (\<open>ids.ID\<close>) is 32 bytes.

  Modelled from the spec: the package \<open>ids\<close> is not part of the sources at hand. The
  spec calls \<open>ids.Empty\<close> the all-zero sentinel identifier, and \<open>Equals\<close> is equality of
  the 32 bytes.
\<close>

type_synonym ID = "256 word"

definition Empty :: ID where
  "Empty = 0"

definition Equals :: "ID \<Rightarrow> ID \<Rightarrow> bool" where
  "Equals a b = (a = b)"

text \<open>
  An \<open>error\<close> is what built it: \<open>errors.New\<close> with its message, or \<open>fmt.Errorf\<close> with
  its format string and its operands, kept unrendered.
\<close>

datatype error =
    ErrorsNew string
  | Errorf string "operand list"
and operand =
    OpValue iface
  | OpErr error
  | OpArg ArgAPI
  | OpID ID

subsection \<open>The Go runtime: \<open>strings.ToLower\<close> and numeric conversion\<close>

text \<open>
  What Go leaves to the implementation or to the Unicode tables is a parameter: the
  lower-casing of a string that is not pure ASCII, and the result of converting a
  floating-point value that the integer type cannot represent (the language
  specification: the conversion succeeds but the result is implementation-dependent).
\<close>

record runtime =
  unicodeLower :: "string \<Rightarrow> string"
  float32ToInt32 :: "ieee \<Rightarrow> 32 word"
  float64ToInt32 :: "ieee \<Rightarrow> 32 word"
  float32ToInt64 :: "ieee \<Rightarrow> 64 word"
  float64ToInt64 :: "ieee \<Rightarrow> 64 word"

definition isASCII :: "char \<Rightarrow> bool" where
  "isASCII c = ((of_char c :: nat) < 128)"

definition lowerByte :: "char \<Rightarrow> char" where
  "lowerByte c =
     (if (65::nat) \<le> of_char c \<and> (of_char c :: nat) \<le> 90
      then char_of ((of_char c :: nat) + 32) else c)"

text \<open>
  \<open>strings.ToLower\<close>: a string of ASCII bytes is lower-cased byte by byte (\<open>'A'..'Z'\<close>
  plus \<open>'a' - 'A'\<close>); any other string goes through the Unicode mapping.
\<close>

definition ToLower :: "runtime \<Rightarrow> string \<Rightarrow> string" where
  "ToLower rt s = (if list_all isASCII s then map lowerByte s else unicodeLower rt s)"

text \<open>
  Conversion of a floating-point value to an integer discards the fraction: the
  magnitude is \<open>m * 2^e\<close> for \<open>e \<ge> 0\<close> and \<open>m div 2^(-e)\<close> otherwise. Infinities and
  NaNs have no integer part.
\<close>

fun integerPart :: "ieee \<Rightarrow> int option" where
  "integerPart (Finite s m e) =
     Some ((if s then - 1 else 1) *
           (if 0 \<le> e then int m * 2 ^ nat e else int m div 2 ^ nat (- e)))"
| "integerPart (Infinity s) = None"
| "integerPart NaN = None"

definition int32_of_float :: "(ieee \<Rightarrow> 32 word) \<Rightarrow> ieee \<Rightarrow> 32 word" where
  "int32_of_float other f =
     (case integerPart f of
        Some z \<Rightarrow> if - (2 ^ 31) \<le> z \<and> z < 2 ^ 31 then word_of_int z else other f
      | None \<Rightarrow> other f)"

definition int64_of_float :: "(ieee \<Rightarrow> 64 word) \<Rightarrow> ieee \<Rightarrow> 64 word" where
  "int64_of_float other f =
     (case integerPart f of
        Some z \<Rightarrow> if - (2 ^ 63) \<le> z \<and> z < 2 ^ 63 then word_of_int z else other f
      | None \<Rightarrow> other f)"

text \<open>
  Conversion between the signed integer types: \<open>int32(v)\<close> of an \<open>int64\<close> keeps the low
  32 bits, \<open>int64(v)\<close> of an \<open>int32\<close> extends the sign.
\<close>

definition int32_of_int64 :: "64 word \<Rightarrow> 32 word" where
  "int32_of_int64 v = scast v"

definition int64_of_int32 :: "32 word \<Rightarrow> 64 word" where
  "int64_of_int32 v = scast v"

subsection \<open>\<open>ArgAPI.toFnArg\<close>\<close>

text \<open>
  The switch on the lower-cased type, and in each case the chain of type assertions in
  the order of the source: \<open>int32\<close>, \<open>int64\<close>, \<open>float32\<close>, \<open>float64\<close>.
\<close>

definition toFnArg :: "runtime \<Rightarrow> ArgAPI \<Rightarrow> error + iface" where
  "toFnArg rt arg =
     (if ToLower rt (Type arg) = ''int32'' then
        (case Value arg of
           GoInt32 valInt32 \<Rightarrow> Inr (GoInt32 valInt32)
         | GoInt64 valInt64 \<Rightarrow> Inr (GoInt32 (int32_of_int64 valInt64))
         | GoFloat32 valFloat32 \<Rightarrow>
             Inr (GoInt32 (int32_of_float (float32ToInt32 rt) valFloat32))
         | GoFloat64 valFloat64 \<Rightarrow>
             Inr (GoInt32 (int32_of_float (float64ToInt32 rt) valFloat64))
         | _ \<Rightarrow> Inl (Errorf ''value '%v' is not convertible to int32'' [OpValue (Value arg)]))
      else if ToLower rt (Type arg) = ''int64'' then
        (case Value arg of
           GoInt32 valInt32 \<Rightarrow> Inr (GoInt64 (int64_of_int32 valInt32))
         | GoInt64 valInt64 \<Rightarrow> Inr (GoInt64 valInt64)
         | GoFloat32 valFloat32 \<Rightarrow>
             Inr (GoInt64 (int64_of_float (float32ToInt64 rt) valFloat32))
         | GoFloat64 valFloat64 \<Rightarrow>
             Inr (GoInt64 (int64_of_float (float64ToInt64 rt) valFloat64))
         | _ \<Rightarrow> Inl (Errorf ''value '%v' is not convertible to int64'' [OpValue (Value arg)]))
      else Inl (ErrorsNew ''arg type must be one of: int32, int64''))"

subsection \<open>Requests, the VM and what the service calls\<close>

type_synonym bytes = "8 word list"

text \<open>
  \<open>InvokeArgs\<close>; a \<open>formatting.CB58\<close> field is the byte sequence it wraps.
\<close>

record InvokeArgs =
  ContractID :: ID
  Function :: string
  PrivateKey :: bytes
  Args :: "ArgAPI list"
  ByteArgs :: bytes

text \<open>
  \<open>CreateContractArgs\<close>. Its second field is \<open>PrivateKey\<close> in the source; it is
  \<open>SenderKey\<close> here, since the field of that name belongs to \<open>InvokeArgs\<close>.
\<close>

record CreateContractArgs =
  Contract :: bytes
  SenderKey :: bytes

text \<open>
  The fields of the VM that the service reads or writes: the pool of pending
  transactions \<open>mempool\<close>, the database \<open>DB\<close>, the debug log \<open>Ctx.Log\<close>, and the number
  of times \<open>NotifyBlockReady\<close> has been called.
\<close>

record ('tx, 'r) VM =
  mempool :: "'tx list"
  DB :: "ID \<rightharpoonup> 'r"
  Log :: "string list"
  notified :: nat

text \<open>
  What the service calls and this file does not define: \<open>keyFactory.ToPrivateKey\<close>,
  \<open>vm.newInvokeTx\<close>, \<open>vm.newCreateContractTx\<close> and the method \<open>ID()\<close> of a
  transaction.

  Modelled from the spec: the two constructors of transactions are black boxes that
  return a transaction or an error, from their arguments alone.
\<close>

record ('key, 'tx) collaborators =
  ToPrivateKey :: "bytes \<Rightarrow> error + 'key"
  newInvokeTx :: "ID \<Rightarrow> string \<Rightarrow> iface list \<Rightarrow> bytes \<Rightarrow> 'key \<Rightarrow> error + 'tx"
  newCreateContractTx :: "bytes \<Rightarrow> 'key \<Rightarrow> error + 'tx"
  txID :: "'tx \<Rightarrow> ID"

definition Debug :: "string \<Rightarrow> ('tx, 'r) VM \<Rightarrow> ('tx, 'r) VM" where
  "Debug msg vm = vm\<lparr>Log := Log vm @ [msg]\<rparr>"

text \<open>
  Modelled from the spec: \<open>NotifyBlockReady\<close> is a one-way signal to an external
  scheduler; the model counts the signals.
\<close>

definition NotifyBlockReady :: "('tx, 'r) VM \<Rightarrow> ('tx, 'r) VM" where
  "NotifyBlockReady vm = vm\<lparr>notified := Suc (notified vm)\<rparr>"

text \<open>
  Modelled from the spec: \<open>vm.getTx\<close> is not part of the sources at hand. The spec has
  a key-value store keyed by transaction ID that returns the stored record or reports
  that there is none. \<open>GetTx\<close> drops the error it gets, so its text is immaterial.
\<close>

definition getTx :: "(ID \<rightharpoonup> 'r) \<Rightarrow> ID \<Rightarrow> error + 'r" where
  "getTx db txid = (case db txid of None \<Rightarrow> Inl (ErrorsNew ''not found'') | Some tx \<Rightarrow> Inr tx)"

subsection \<open>\<open>InvokeArgs.validate\<close> and \<open>Service.Invoke\<close>\<close>

definition validate :: "InvokeArgs \<Rightarrow> error option" where
  "validate args =
     (if Equals (ContractID args) Empty then Some (ErrorsNew ''contractID not specified'')
      else if Function args = [] then Some (ErrorsNew ''function not specified'')
      else None)"

text \<open>
  The loop \<open>for i, arg := range args.Args\<close>: it stores each converted argument at its
  index in \<open>fnArgs\<close> and returns at the first argument that does not convert.
\<close>

fun coerceArgs :: "runtime \<Rightarrow> ArgAPI list \<Rightarrow> nat \<Rightarrow> iface list \<Rightarrow> error + iface list" where
  "coerceArgs rt [] i fnArgs = Inr fnArgs"
| "coerceArgs rt (arg # rest) i fnArgs =
     (case toFnArg rt arg of
        Inl err \<Rightarrow> Inl (Errorf ''couldn't parse arg '%+v': %s'' [OpArg arg, OpErr err])
      | Inr v \<Rightarrow> coerceArgs rt rest (Suc i) (fnArgs[i := v]))"

text \<open>
  An operation returns its error, or what it writes to its response, and the VM.
\<close>

definition Invoke ::
  "runtime \<Rightarrow> ('key, 'tx) collaborators \<Rightarrow> InvokeArgs \<Rightarrow> ('tx, 'r) VM \<Rightarrow> (error + ID) \<times> ('tx, 'r) VM"
where
  "Invoke rt ext args vm0 =
     (let vm = Debug ''in invoke'' vm0 in
      case validate args of
        Some err \<Rightarrow> (Inl (Errorf ''arguments failed validation: %v'' [OpErr err]), vm)
      | None \<Rightarrow>
     (case coerceArgs rt (Args args) 0 (replicate (length (Args args)) GoNil) of
        Inl err \<Rightarrow> (Inl err, vm)
      | Inr fnArgs \<Rightarrow>
     (case ToPrivateKey ext (PrivateKey args) of
        Inl err \<Rightarrow>
          (Inl (Errorf ''couldn't parse 'privateKey' to a SECP256K1R private key: %v''
                  [OpErr err]), vm)
      | Inr privateKey \<Rightarrow>
     (case newInvokeTx ext (ContractID args) (Function args) fnArgs (ByteArgs args) privateKey of
        Inl err \<Rightarrow> (Inl (Errorf ''couldn't create tx: %s'' [OpErr err]), vm)
      | Inr tx \<Rightarrow>
          (Inr (txID ext tx), NotifyBlockReady (vm\<lparr>mempool := mempool vm @ [tx]\<rparr>))))))"

subsection \<open>\<open>Service.CreateContract\<close> and \<open>Service.GetTx\<close>\<close>

definition CreateContract ::
  "('key, 'tx) collaborators \<Rightarrow> CreateContractArgs \<Rightarrow> ('tx, 'r) VM \<Rightarrow> (error + ID) \<times> ('tx, 'r) VM"
where
  "CreateContract ext args vm0 =
     (let vm = Debug ''in createContract'' vm0 in
      case ToPrivateKey ext (SenderKey args) of
        Inl err \<Rightarrow>
          (Inl (Errorf ''couldn't parse 'privateKey' to a SECP256K1R private key: %v''
                  [OpErr err]), vm)
      | Inr privateKey \<Rightarrow>
     (case newCreateContractTx ext (Contract args) privateKey of
        Inl err \<Rightarrow> (Inl (Errorf ''couldn't create tx: %v'' [OpErr err]), vm)
      | Inr tx \<Rightarrow>
          (Inr (txID ext tx), NotifyBlockReady (vm\<lparr>mempool := mempool vm @ [tx]\<rparr>))))"

text \<open>\<open>GetTxArgs\<close> has the one field \<open>ID\<close>, which \<open>GetTx\<close> takes as its argument.\<close>

definition GetTx :: "ID \<Rightarrow> ('tx, 'r) VM \<Rightarrow> (error + 'r) \<times> ('tx, 'r) VM" where
  "GetTx txid vm =
     (case getTx (DB vm) txid of
        Inl err \<Rightarrow> (Inl (Errorf ''couldn't find tx with ID %s'' [OpID txid]), vm)
      | Inr tx \<Rightarrow> (Inr tx, vm))"

subsection \<open>Classifying errors and values; instances for the examples\<close>

text \<open>
  The four numeric wire types that \<open>toFnArg\<close> converts.
\<close>

fun isNumeric :: "iface \<Rightarrow> bool" where
  "isNumeric (GoInt32 v) = True"
| "isNumeric (GoInt64 v) = True"
| "isNumeric (GoFloat32 v) = True"
| "isNumeric (GoFloat64 v) = True"
| "isNumeric v = False"

text \<open>An argument is coercible when \<open>toFnArg\<close> returns a value for it.\<close>

definition coercible :: "runtime \<Rightarrow> ArgAPI \<Rightarrow> bool" where
  "coercible rt arg = (case toFnArg rt arg of Inl err \<Rightarrow> False | Inr v \<Rightarrow> True)"

text \<open>
  The kinds of error of \<open>Invoke\<close>, told apart by the format string that built them:
  a failed validation, an argument that does not convert, a signing key that does not
  parse, a transaction that could not be built.
\<close>

fun isValidationError :: "error \<Rightarrow> bool" where
  "isValidationError (Errorf fmt ops) = (fmt = ''arguments failed validation: %v'')"
| "isValidationError (ErrorsNew msg) = False"

fun isArgumentError :: "error \<Rightarrow> bool" where
  "isArgumentError (Errorf fmt ops) = (fmt = ''couldn't parse arg '%+v': %s'')"
| "isArgumentError (ErrorsNew msg) = False"

fun isKeyError :: "error \<Rightarrow> bool" where
  "isKeyError (Errorf fmt ops) =
     (fmt = ''couldn't parse 'privateKey' to a SECP256K1R private key: %v'')"
| "isKeyError (ErrorsNew msg) = False"

text \<open>
  The real number that a finite floating-point value stands for, and truncation toward
  zero as the language specification has it: the fraction is discarded.
\<close>

definition valof :: "bool \<Rightarrow> nat \<Rightarrow> int \<Rightarrow> real" where
  "valof s m e = (if s then - 1 else 1) * (real m * 2 powi e)"

definition trunc_toward_zero :: "real \<Rightarrow> int" where
  "trunc_toward_zero x = (if 0 \<le> x then \<lfloor>x\<rfloor> else \<lceil>x\<rceil>)"

text \<open>
  A runtime for the examples: a conversion out of range gives the least integer, which
  is what the conversion instructions of amd64 return, and the Unicode mapping, which no
  example with an ASCII type reaches, is the identity.
\<close>

definition exampleRuntime :: runtime where
  "exampleRuntime =
     \<lparr>unicodeLower = (\<lambda>s. s),
      float32ToInt32 = (\<lambda>f. - (2 ^ 31)),
      float64ToInt32 = (\<lambda>f. - (2 ^ 31)),
      float32ToInt64 = (\<lambda>f. - (2 ^ 63)),
      float64ToInt64 = (\<lambda>f. - (2 ^ 63))\<rparr>"

text \<open>
  Collaborators for the examples: a key is any 32 bytes, a transaction is the pair of
  its sender's key and its payload, and its ID is the length of the payload.
\<close>

definition exampleCollaborators :: "(bytes, bytes \<times> bytes) collaborators" where
  "exampleCollaborators =
     \<lparr>ToPrivateKey = (\<lambda>bs. if length bs = 32 then Inr bs else Inl (ErrorsNew ''bad key'')),
      newInvokeTx = (\<lambda>cid fn fnArgs byteArgs key.
         if length fn < 64 then Inr (key, byteArgs) else Inl (ErrorsNew ''name too long'')),
      newCreateContractTx = (\<lambda>contract key. Inr (key, contract)),
      txID = (\<lambda>tx. of_nat (length (snd tx)))\<rparr>"

definition emptyVM :: "(bytes \<times> bytes, string) VM" where
  "emptyVM = \<lparr>mempool = [], DB = Map.empty, Log = [], notified = 0\<rparr>"

text \<open>
  A request for the examples: one argument of type \<open>int32\<close> whose value arrives as the
  \<open>float64\<close> 7, signed with a key of 32 bytes.
\<close>

definition exampleKey :: bytes where
  "exampleKey = replicate 32 0"

definition exampleRequest :: InvokeArgs where
  "exampleRequest =
     \<lparr>ContractID = 1, Function = ''f'', PrivateKey = exampleKey,
      Args = [\<lparr>Type = ''int32'', Value = GoFloat64 (Finite False 7 0)\<rparr>],
      ByteArgs = [1, 2]\<rparr>"

section \<open>Properties\<close>

subsection \<open>Numeric conversion\<close>

lemma magnitude_floor:
  "\<lfloor>real m * 2 powi e\<rfloor> = (if 0 \<le> e then int m * 2 ^ nat e else int m div 2 ^ nat (- e))"
proof (cases "0 \<le> e")
  case True
  have "real m * 2 powi e = of_int (int m * 2 ^ nat e)"
    using True by (simp add: power_int_def)
  then show ?thesis
    using True by (simp only: floor_of_int if_True)
next
  case False
  have "real m * 2 powi e = of_int (int m) / of_int (2 ^ nat (- e))"
    using False by (simp add: power_int_def field_simps)
  then have "\<lfloor>real m * 2 powi e\<rfloor> = int m div 2 ^ nat (- e)"
    by (simp only: floor_divide_of_int_eq)
  then show ?thesis
    using False by simp
qed

lemma integerPart_Finite:
  "integerPart (Finite s m e) = Some (trunc_toward_zero (valof s m e))"
proof -
  let ?x = "real m * 2 powi e"
  have nn: "0 \<le> ?x" by simp
  show ?thesis
  proof (cases s)
    case False
    then show ?thesis
      using nn magnitude_floor [of m e] by (simp add: trunc_toward_zero_def valof_def)
  next
    case True
    show ?thesis
    proof (cases "?x = 0")
      case z: True
      then have "\<lfloor>?x\<rfloor> = 0" by simp
      then show ?thesis
        using True z magnitude_floor [of m e] by (simp add: trunc_toward_zero_def valof_def)
    next
      case nz: False
      then have "\<not> 0 \<le> - ?x" using nn by linarith
      moreover have "\<lceil>- ?x\<rceil> = - \<lfloor>?x\<rfloor>" by (simp add: ceiling_minus)
      ultimately show ?thesis
        using True magnitude_floor [of m e] by (simp add: trunc_toward_zero_def valof_def)
    qed
  qed
qed

lemma sint_int32_of_int64:
  "sint (int32_of_int64 b) = (sint b + 2 ^ 31) mod 2 ^ 32 - 2 ^ 31"
proof -
  have "int32_of_int64 b = word_of_int (sint b)"
    unfolding int32_of_int64_def by (rule scast_eq)
  then have "sint (int32_of_int64 b) =
      (sint b + 2 ^ (LENGTH(32) - 1)) mod 2 ^ LENGTH(32) - 2 ^ (LENGTH(32) - 1)"
    by (simp only: int_word_sint)
  then show ?thesis by simp
qed

lemma sint_int64_of_int32: "sint (int64_of_int32 a) = sint a"
  unfolding int64_of_int32_def by (rule sint_up_scast) (simp add: is_up)

lemma sint_int32_in_range:
  assumes "- (2 ^ 31) \<le> z" and "z < 2 ^ 31"
  shows "sint (word_of_int z :: 32 word) = z"
proof -
  have "sint (word_of_int z :: 32 word) = (z + 2 ^ 31) mod 2 ^ 32 - 2 ^ 31"
    by (simp add: int_word_sint)
  moreover have "(z + 2 ^ 31) mod 2 ^ 32 = z + 2 ^ 31"
    using assms by (intro mod_pos_pos_trivial) simp_all
  ultimately show ?thesis by simp
qed

lemma sint_int64_in_range:
  assumes "- (2 ^ 63) \<le> z" and "z < 2 ^ 63"
  shows "sint (word_of_int z :: 64 word) = z"
proof -
  have "sint (word_of_int z :: 64 word) = (z + 2 ^ 63) mod 2 ^ 64 - 2 ^ 63"
    by (simp add: int_word_sint)
  moreover have "(z + 2 ^ 63) mod 2 ^ 64 = z + 2 ^ 63"
    using assms by (intro mod_pos_pos_trivial) simp_all
  ultimately show ?thesis by simp
qed

lemma sint_int32_of_float:
  assumes "- (2 ^ 31) \<le> trunc_toward_zero (valof s m e)"
    and "trunc_toward_zero (valof s m e) < 2 ^ 31"
  shows "sint (int32_of_float other (Finite s m e)) = trunc_toward_zero (valof s m e)"
proof -
  have "int32_of_float other (Finite s m e) = word_of_int (trunc_toward_zero (valof s m e))"
    using assms by (simp only: int32_of_float_def integerPart_Finite option.case) simp
  then show ?thesis
    using assms by (simp only: sint_int32_in_range)
qed

lemma sint_int64_of_float:
  assumes "- (2 ^ 63) \<le> trunc_toward_zero (valof s m e)"
    and "trunc_toward_zero (valof s m e) < 2 ^ 63"
  shows "sint (int64_of_float other (Finite s m e)) = trunc_toward_zero (valof s m e)"
proof -
  have "int64_of_float other (Finite s m e) = word_of_int (trunc_toward_zero (valof s m e))"
    using assms by (simp only: int64_of_float_def integerPart_Finite option.case) simp
  then show ?thesis
    using assms by (simp only: sint_int64_in_range)
qed

lemma ToLower_examples:
  "ToLower rt ''Int32'' = ''int32''" "ToLower rt ''INT64'' = ''int64''"
  "ToLower rt ''int32'' = ''int32''" "ToLower rt ''int64'' = ''int64''"
  "ToLower rt ''string'' = ''string''"
  by (simp_all add: ToLower_def isASCII_def lowerByte_def char_of_def bit_0)

subsection \<open>Coercion of an argument\<close>

text \<open>
  Claim C1, as the code has it. Whenever the lower-cased type is \<open>int32\<close>, \<open>toFnArg\<close>
  returns an \<open>int32\<close> unchanged, returns an \<open>int64\<close> narrowed with wrap-around modulo
  \<open>2^32\<close>, and returns some \<open>int32\<close>, never an error, for every \<open>float32\<close> and \<open>float64\<close>:
  no range is checked. For a finite floating-point value whose truncation toward zero
  an \<open>int32\<close> can hold, the result is that truncation. Whenever the lower-cased type is
  \<open>int64\<close>, the same holds with an \<open>int32\<close> widened to its own value, an \<open>int64\<close> unchanged
  and the range of an \<open>int64\<close>. What a floating-point value out of the range converts to
  is left to the runtime. In particular the \<open>float64\<close> nearest to 3.9, which is
  \<open>8782019273372467 * 2^-51\<close>, converts to the \<open>int32\<close> 3.
\<close>

theorem toFnArg_numeric:
  "(ToLower rt t32 = ''int32'' \<longrightarrow>
      toFnArg rt \<lparr>Type = t32, Value = GoInt32 a\<rparr> = Inr (GoInt32 a)
    \<and> (\<exists>r. toFnArg rt \<lparr>Type = t32, Value = GoInt64 b\<rparr> = Inr (GoInt32 r)
          \<and> sint r = (sint b + 2 ^ 31) mod 2 ^ 32 - 2 ^ 31)
    \<and> (\<exists>r. toFnArg rt \<lparr>Type = t32, Value = GoFloat32 f\<rparr> = Inr (GoInt32 r))
    \<and> (\<exists>r. toFnArg rt \<lparr>Type = t32, Value = GoFloat64 f\<rparr> = Inr (GoInt32 r))
    \<and> (- (2 ^ 31) \<le> trunc_toward_zero (valof s m e)
          \<and> trunc_toward_zero (valof s m e) < 2 ^ 31 \<longrightarrow>
        (\<exists>r. toFnArg rt \<lparr>Type = t32, Value = GoFloat32 (Finite s m e)\<rparr> = Inr (GoInt32 r)
          \<and> sint r = trunc_toward_zero (valof s m e))
      \<and> (\<exists>r. toFnArg rt \<lparr>Type = t32, Value = GoFloat64 (Finite s m e)\<rparr> = Inr (GoInt32 r)
          \<and> sint r = trunc_toward_zero (valof s m e))))
 \<and> (ToLower rt t64 = ''int64'' \<longrightarrow>
      (\<exists>r. toFnArg rt \<lparr>Type = t64, Value = GoInt32 a\<rparr> = Inr (GoInt64 r) \<and> sint r = sint a)
    \<and> toFnArg rt \<lparr>Type = t64, Value = GoInt64 b\<rparr> = Inr (GoInt64 b)
    \<and> (\<exists>r. toFnArg rt \<lparr>Type = t64, Value = GoFloat32 f\<rparr> = Inr (GoInt64 r))
    \<and> (\<exists>r. toFnArg rt \<lparr>Type = t64, Value = GoFloat64 f\<rparr> = Inr (GoInt64 r))
    \<and> (- (2 ^ 63) \<le> trunc_toward_zero (valof s m e)
          \<and> trunc_toward_zero (valof s m e) < 2 ^ 63 \<longrightarrow>
        (\<exists>r. toFnArg rt \<lparr>Type = t64, Value = GoFloat32 (Finite s m e)\<rparr> = Inr (GoInt64 r)
          \<and> sint r = trunc_toward_zero (valof s m e))
      \<and> (\<exists>r. toFnArg rt \<lparr>Type = t64, Value = GoFloat64 (Finite s m e)\<rparr> = Inr (GoInt64 r)
          \<and> sint r = trunc_toward_zero (valof s m e))))
 \<and> toFnArg rt \<lparr>Type = ''int32'', Value = GoFloat64 (Finite False 8782019273372467 (- 51))\<rparr> =
      Inr (GoInt32 3)"
proof (intro conjI impI)
  assume t: "ToLower rt t32 = ''int32''"
  show "toFnArg rt \<lparr>Type = t32, Value = GoInt32 a\<rparr> = Inr (GoInt32 a)"
    using t by (simp add: toFnArg_def)
  show "\<exists>r. toFnArg rt \<lparr>Type = t32, Value = GoInt64 b\<rparr> = Inr (GoInt32 r)
      \<and> sint r = (sint b + 2 ^ 31) mod 2 ^ 32 - 2 ^ 31"
    using t sint_int32_of_int64 [of b] by (simp add: toFnArg_def)
  show "\<exists>r. toFnArg rt \<lparr>Type = t32, Value = GoFloat32 f\<rparr> = Inr (GoInt32 r)"
    using t by (simp add: toFnArg_def)
  show "\<exists>r. toFnArg rt \<lparr>Type = t32, Value = GoFloat64 f\<rparr> = Inr (GoInt32 r)"
    using t by (simp add: toFnArg_def)
  assume "- (2 ^ 31) \<le> trunc_toward_zero (valof s m e)
      \<and> trunc_toward_zero (valof s m e) < 2 ^ 31"
  then have r: "sint (int32_of_float other (Finite s m e)) = trunc_toward_zero (valof s m e)"
    for other
    by (simp add: sint_int32_of_float)
  show "\<exists>r. toFnArg rt \<lparr>Type = t32, Value = GoFloat32 (Finite s m e)\<rparr> = Inr (GoInt32 r)
      \<and> sint r = trunc_toward_zero (valof s m e)"
    using t r [of "float32ToInt32 rt"] by (simp add: toFnArg_def)
  show "\<exists>r. toFnArg rt \<lparr>Type = t32, Value = GoFloat64 (Finite s m e)\<rparr> = Inr (GoInt32 r)
      \<and> sint r = trunc_toward_zero (valof s m e)"
    using t r [of "float64ToInt32 rt"] by (simp add: toFnArg_def)
next
  assume t: "ToLower rt t64 = ''int64''"
  show "\<exists>r. toFnArg rt \<lparr>Type = t64, Value = GoInt32 a\<rparr> = Inr (GoInt64 r) \<and> sint r = sint a"
    using t sint_int64_of_int32 [of a] by (simp add: toFnArg_def)
  show "toFnArg rt \<lparr>Type = t64, Value = GoInt64 b\<rparr> = Inr (GoInt64 b)"
    using t by (simp add: toFnArg_def)
  show "\<exists>r. toFnArg rt \<lparr>Type = t64, Value = GoFloat32 f\<rparr> = Inr (GoInt64 r)"
    using t by (simp add: toFnArg_def)
  show "\<exists>r. toFnArg rt \<lparr>Type = t64, Value = GoFloat64 f\<rparr> = Inr (GoInt64 r)"
    using t by (simp add: toFnArg_def)
  assume "- (2 ^ 63) \<le> trunc_toward_zero (valof s m e)
      \<and> trunc_toward_zero (valof s m e) < 2 ^ 63"
  then have r: "sint (int64_of_float other (Finite s m e)) = trunc_toward_zero (valof s m e)"
    for other
    by (simp add: sint_int64_of_float)
  show "\<exists>r. toFnArg rt \<lparr>Type = t64, Value = GoFloat32 (Finite s m e)\<rparr> = Inr (GoInt64 r)
      \<and> sint r = trunc_toward_zero (valof s m e)"
    using t r [of "float32ToInt64 rt"] by (simp add: toFnArg_def)
  show "\<exists>r. toFnArg rt \<lparr>Type = t64, Value = GoFloat64 (Finite s m e)\<rparr> = Inr (GoInt64 r)
      \<and> sint r = trunc_toward_zero (valof s m e)"
    using t r [of "float64ToInt64 rt"] by (simp add: toFnArg_def)
next
  show "toFnArg rt
      \<lparr>Type = ''int32'', Value = GoFloat64 (Finite False 8782019273372467 (- 51))\<rparr> =
      Inr (GoInt32 3)"
    by (simp add: toFnArg_def ToLower_examples int32_of_float_def)
qed

lemma trunc_examples:
  "trunc_toward_zero (valof True 5 (- 1)) = - 2"
  "trunc_toward_zero (valof False 7 0) = 7"
  "trunc_toward_zero (valof False 4294967299 0) = 4294967299"
  by (simp_all add: trunc_toward_zero_def valof_def power_int_def)

theorem toFnArg_numeric_witness:
  "ToLower exampleRuntime ''Int32'' = ''int32''
 \<and> toFnArg exampleRuntime \<lparr>Type = ''Int32'', Value = GoInt32 (- 7)\<rparr> = Inr (GoInt32 (- 7))
 \<and> toFnArg exampleRuntime \<lparr>Type = ''Int32'', Value = GoInt64 4294967299\<rparr> = Inr (GoInt32 3)
 \<and> - (2 ^ 31) \<le> trunc_toward_zero (valof True 5 (- 1))
 \<and> trunc_toward_zero (valof True 5 (- 1)) < 2 ^ 31
 \<and> trunc_toward_zero (valof True 5 (- 1)) = - 2
 \<and> toFnArg exampleRuntime \<lparr>Type = ''Int32'', Value = GoFloat32 (Finite True 5 (- 1))\<rparr> =
      Inr (GoInt32 (- 2))
 \<and> toFnArg exampleRuntime \<lparr>Type = ''Int32'', Value = GoFloat64 (Finite True 5 (- 1))\<rparr> =
      Inr (GoInt32 (- 2))
 \<and> ToLower exampleRuntime ''INT64'' = ''int64''
 \<and> toFnArg exampleRuntime \<lparr>Type = ''INT64'', Value = GoInt32 (- 7)\<rparr> = Inr (GoInt64 (- 7))
 \<and> toFnArg exampleRuntime \<lparr>Type = ''INT64'', Value = GoInt64 4294967299\<rparr> =
      Inr (GoInt64 4294967299)
 \<and> - (2 ^ 63) \<le> trunc_toward_zero (valof True 5 (- 1))
 \<and> trunc_toward_zero (valof True 5 (- 1)) < 2 ^ 63
 \<and> toFnArg exampleRuntime \<lparr>Type = ''INT64'', Value = GoFloat32 (Finite True 5 (- 1))\<rparr> =
      Inr (GoInt64 (- 2))
 \<and> toFnArg exampleRuntime \<lparr>Type = ''INT64'', Value = GoFloat64 (Finite True 5 (- 1))\<rparr> =
      Inr (GoInt64 (- 2))"
proof -
  have l32: "ToLower exampleRuntime ''Int32'' = ''int32''"
    by (rule ToLower_examples)
  have l64: "ToLower exampleRuntime ''INT64'' = ''int64''"
    by (rule ToLower_examples)
  have lo: "- (2 ^ 31) \<le> trunc_toward_zero (valof True 5 (- 1))"
    and hi: "trunc_toward_zero (valof True 5 (- 1)) < 2 ^ 31"
    and lo': "- (2 ^ 63) \<le> trunc_toward_zero (valof True 5 (- 1))"
    and hi': "trunc_toward_zero (valof True 5 (- 1)) < 2 ^ 63"
    by (simp_all add: trunc_examples)
  note inst = toFnArg_numeric [of exampleRuntime "''Int32''" "- 7" 4294967299
      "Finite True 5 (- 1)" True 5 "- 1" "''INT64''"]
  have words: "int32_of_int64 4294967299 = 3" "int64_of_int32 (- 7) = - 7"
    by (simp_all add: int32_of_int64_def int64_of_int32_def)
  have floats: "int32_of_float other32 (Finite True 5 (- 1)) = - 2"
    "int64_of_float other64 (Finite True 5 (- 1)) = - 2" for other32 other64
    by (simp_all add: int32_of_float_def int64_of_float_def)
  have vals:
    "toFnArg exampleRuntime \<lparr>Type = ''Int32'', Value = GoInt64 4294967299\<rparr> = Inr (GoInt32 3)"
    "toFnArg exampleRuntime \<lparr>Type = ''Int32'', Value = GoFloat32 (Finite True 5 (- 1))\<rparr> =
      Inr (GoInt32 (- 2))"
    "toFnArg exampleRuntime \<lparr>Type = ''Int32'', Value = GoFloat64 (Finite True 5 (- 1))\<rparr> =
      Inr (GoInt32 (- 2))"
    "toFnArg exampleRuntime \<lparr>Type = ''INT64'', Value = GoInt32 (- 7)\<rparr> = Inr (GoInt64 (- 7))"
    "toFnArg exampleRuntime \<lparr>Type = ''INT64'', Value = GoFloat32 (Finite True 5 (- 1))\<rparr> =
      Inr (GoInt64 (- 2))"
    "toFnArg exampleRuntime \<lparr>Type = ''INT64'', Value = GoFloat64 (Finite True 5 (- 1))\<rparr> =
      Inr (GoInt64 (- 2))"
    by (simp_all add: toFnArg_def l32 l64 words floats)
  show ?thesis
    using inst l32 l64 lo hi lo' hi' by (simp add: vals trunc_examples)
qed

text \<open>
  A \<open>float64\<close> out of the range of an \<open>int32\<close> does not wrap around. The \<open>float64\<close>
  4294967299 is \<open>2^32 + 3\<close>: as an \<open>int64\<close> it narrows to 3, as a \<open>float64\<close> it converts,
  on the runtime of the examples, to the least \<open>int32\<close>.
\<close>

theorem toFnArg_float_overflow_counterexample:
  "ToLower exampleRuntime ''int32'' = ''int32''
 \<and> trunc_toward_zero (valof False 4294967299 0) = 4294967299
 \<and> (4294967299 + 2 ^ 31) mod 2 ^ 32 - 2 ^ 31 = (3 :: int)
 \<and> toFnArg exampleRuntime \<lparr>Type = ''int32'', Value = GoInt64 4294967299\<rparr> = Inr (GoInt32 3)
 \<and> toFnArg exampleRuntime \<lparr>Type = ''int32'', Value = GoFloat64 (Finite False 4294967299 0)\<rparr> =
      Inr (GoInt32 (- 2147483648))
 \<and> sint (- 2147483648 :: 32 word) = - 2147483648
 \<and> toFnArg exampleRuntime \<lparr>Type = ''int32'', Value = GoFloat64 (Finite False 4294967299 0)\<rparr> \<noteq>
      Inr (GoInt32 3)"
  by (simp add: toFnArg_def ToLower_examples trunc_examples int32_of_float_def
      int32_of_int64_def exampleRuntime_def)

text \<open>
  Claim C6. Whenever the lower-cased type is neither \<open>int32\<close> nor \<open>int64\<close>, \<open>toFnArg\<close>
  fails with the error \<open>arg type must be one of: int32, int64\<close>, whatever the value is.
  Whenever it is one of the two and the value is none of the four numeric types,
  \<open>toFnArg\<close> fails with an error that carries the value: \<open>value '%v' is not convertible\<close>
  to that type, formatted with the value.
\<close>

theorem toFnArg_errors:
  "(ToLower rt (Type arg) \<noteq> ''int32'' \<and> ToLower rt (Type arg) \<noteq> ''int64'' \<longrightarrow>
      toFnArg rt arg = Inl (ErrorsNew ''arg type must be one of: int32, int64''))
 \<and> (ToLower rt (Type arg32) = ''int32'' \<and> \<not> isNumeric (Value arg32) \<longrightarrow>
      toFnArg rt arg32 =
        Inl (Errorf ''value '%v' is not convertible to int32'' [OpValue (Value arg32)]))
 \<and> (ToLower rt (Type arg64) = ''int64'' \<and> \<not> isNumeric (Value arg64) \<longrightarrow>
      toFnArg rt arg64 =
        Inl (Errorf ''value '%v' is not convertible to int64'' [OpValue (Value arg64)]))"
proof (intro conjI impI)
  assume "ToLower rt (Type arg) \<noteq> ''int32'' \<and> ToLower rt (Type arg) \<noteq> ''int64''"
  then show "toFnArg rt arg = Inl (ErrorsNew ''arg type must be one of: int32, int64'')"
    by (simp add: toFnArg_def)
next
  assume "ToLower rt (Type arg32) = ''int32'' \<and> \<not> isNumeric (Value arg32)"
  then show "toFnArg rt arg32 =
      Inl (Errorf ''value '%v' is not convertible to int32'' [OpValue (Value arg32)])"
    by (cases "Value arg32") (simp_all add: toFnArg_def)
next
  assume "ToLower rt (Type arg64) = ''int64'' \<and> \<not> isNumeric (Value arg64)"
  then show "toFnArg rt arg64 =
      Inl (Errorf ''value '%v' is not convertible to int64'' [OpValue (Value arg64)])"
    by (cases "Value arg64") (simp_all add: toFnArg_def)
qed

theorem toFnArg_errors_witness:
  "ToLower exampleRuntime ''string'' \<noteq> ''int32'' \<and> ToLower exampleRuntime ''string'' \<noteq> ''int64''
 \<and> toFnArg exampleRuntime \<lparr>Type = ''string'', Value = GoString ''x''\<rparr> =
      Inl (ErrorsNew ''arg type must be one of: int32, int64'')
 \<and> ToLower exampleRuntime ''Int32'' = ''int32'' \<and> \<not> isNumeric (GoString ''bad'')
 \<and> toFnArg exampleRuntime \<lparr>Type = ''Int32'', Value = GoString ''bad''\<rparr> =
      Inl (Errorf ''value '%v' is not convertible to int32'' [OpValue (GoString ''bad'')])
 \<and> ToLower exampleRuntime ''INT64'' = ''int64'' \<and> \<not> isNumeric GoNil
 \<and> toFnArg exampleRuntime \<lparr>Type = ''INT64'', Value = GoNil\<rparr> =
      Inl (Errorf ''value '%v' is not convertible to int64'' [OpValue GoNil])"
  using toFnArg_errors [of exampleRuntime "\<lparr>Type = ''string'', Value = GoString ''x''\<rparr>"
      "\<lparr>Type = ''Int32'', Value = GoString ''bad''\<rparr>" "\<lparr>Type = ''INT64'', Value = GoNil\<rparr>"]
  by (simp add: ToLower_examples)

subsection \<open>The loop over the arguments\<close>

lemma coerceArgs_error:
  "coerceArgs rt as i fnArgs = Inl e \<Longrightarrow> isArgumentError e"
  by (induction as arbitrary: i fnArgs) (auto split: sum.splits)

lemma coerceArgs_first_failure:
  assumes "list_all (coercible rt) pre" and "toFnArg rt bad = Inl err"
  shows "coerceArgs rt (pre @ bad # rest) i fnArgs =
    Inl (Errorf ''couldn't parse arg '%+v': %s'' [OpArg bad, OpErr err])"
  using assms
  by (induction pre arbitrary: i fnArgs) (auto simp: coercible_def split: sum.splits)

lemma coerceArgs_not_coercible:
  assumes "bad \<in> set as" and "\<not> coercible rt bad"
  shows "\<exists>e. coerceArgs rt as i fnArgs = Inl e"
  using assms
  by (induction as arbitrary: i fnArgs) (auto simp: coercible_def split: sum.splits)

subsection \<open>The outcomes of \<open>Invoke\<close>\<close>

lemma Invoke_invalid:
  assumes "validate args = Some err"
  shows "Invoke rt ext args vm =
    (Inl (Errorf ''arguments failed validation: %v'' [OpErr err]), Debug ''in invoke'' vm)"
  using assms by (simp add: Invoke_def)

lemma Invoke_bad_argument:
  assumes "validate args = None"
    and "coerceArgs rt (Args args) 0 (replicate (length (Args args)) GoNil) = Inl e"
  shows "Invoke rt ext args vm = (Inl e, Debug ''in invoke'' vm)"
  using assms by (simp add: Invoke_def)

lemma validate_None_iff:
  "validate args = None \<longleftrightarrow> \<not> (Equals (ContractID args) Empty \<or> Function args = [])"
  by (simp add: validate_def)

lemma Invoke_cases:
  "(\<exists>err. validate args = Some err \<and>
      Invoke rt ext args vm =
        (Inl (Errorf ''arguments failed validation: %v'' [OpErr err]), Debug ''in invoke'' vm))
 \<or> (validate args = None \<and> (\<exists>e. isArgumentError e \<and>
      Invoke rt ext args vm = (Inl e, Debug ''in invoke'' vm)))
 \<or> (validate args = None \<and> (\<exists>fnArgs err.
      coerceArgs rt (Args args) 0 (replicate (length (Args args)) GoNil) = Inr fnArgs \<and>
      ToPrivateKey ext (PrivateKey args) = Inl err \<and>
      Invoke rt ext args vm =
        (Inl (Errorf ''couldn't parse 'privateKey' to a SECP256K1R private key: %v''
           [OpErr err]), Debug ''in invoke'' vm)))
 \<or> (validate args = None \<and> (\<exists>fnArgs key err.
      coerceArgs rt (Args args) 0 (replicate (length (Args args)) GoNil) = Inr fnArgs \<and>
      ToPrivateKey ext (PrivateKey args) = Inr key \<and>
      newInvokeTx ext (ContractID args) (Function args) fnArgs (ByteArgs args) key = Inl err \<and>
      Invoke rt ext args vm =
        (Inl (Errorf ''couldn't create tx: %s'' [OpErr err]), Debug ''in invoke'' vm)))
 \<or> (validate args = None \<and> (\<exists>fnArgs key tx.
      coerceArgs rt (Args args) 0 (replicate (length (Args args)) GoNil) = Inr fnArgs \<and>
      ToPrivateKey ext (PrivateKey args) = Inr key \<and>
      newInvokeTx ext (ContractID args) (Function args) fnArgs (ByteArgs args) key = Inr tx \<and>
      Invoke rt ext args vm =
        (Inr (txID ext tx),
         NotifyBlockReady (Debug ''in invoke'' vm
           \<lparr>mempool := mempool (Debug ''in invoke'' vm) @ [tx]\<rparr>))))"
proof (cases "validate args")
  case (Some err)
  then show ?thesis by (simp add: Invoke_invalid)
next
  case None
  show ?thesis
  proof (cases "coerceArgs rt (Args args) 0 (replicate (length (Args args)) GoNil)")
    case (Inl e)
    then show ?thesis
      using None coerceArgs_error [OF Inl] by (simp add: Invoke_bad_argument)
  next
    case (Inr fnArgs)
    show ?thesis
    proof (cases "ToPrivateKey ext (PrivateKey args)")
      case (Inl err)
      then show ?thesis using None Inr by (simp add: Invoke_def)
    next
      case key: (Inr key)
      show ?thesis
      proof (cases "newInvokeTx ext (ContractID args) (Function args) fnArgs (ByteArgs args) key")
        case (Inl err)
        then show ?thesis using None Inr key by (simp add: Invoke_def)
      next
        case tx: (Inr tx)
        then show ?thesis using None Inr key by (simp add: Invoke_def Let_def)
      qed
    qed
  qed
qed

lemma CreateContract_cases:
  "(\<exists>err. ToPrivateKey ext (SenderKey args) = Inl err \<and>
      CreateContract ext args vm =
        (Inl (Errorf ''couldn't parse 'privateKey' to a SECP256K1R private key: %v''
           [OpErr err]), Debug ''in createContract'' vm))
 \<or> (\<exists>key err. ToPrivateKey ext (SenderKey args) = Inr key \<and>
      newCreateContractTx ext (Contract args) key = Inl err \<and>
      CreateContract ext args vm =
        (Inl (Errorf ''couldn't create tx: %v'' [OpErr err]), Debug ''in createContract'' vm))
 \<or> (\<exists>key tx. ToPrivateKey ext (SenderKey args) = Inr key \<and>
      newCreateContractTx ext (Contract args) key = Inr tx \<and>
      CreateContract ext args vm =
        (Inr (txID ext tx),
         NotifyBlockReady (Debug ''in createContract'' vm
           \<lparr>mempool := mempool (Debug ''in createContract'' vm) @ [tx]\<rparr>)))"
proof (cases "ToPrivateKey ext (SenderKey args)")
  case (Inl err)
  then show ?thesis by (simp add: CreateContract_def)
next
  case key: (Inr key)
  show ?thesis
  proof (cases "newCreateContractTx ext (Contract args) key")
    case (Inl err)
    then show ?thesis using key by (simp add: CreateContract_def)
  next
    case (Inr tx)
    then show ?thesis using key by (simp add: CreateContract_def Let_def)
  qed
qed

lemma pool_simps:
  "mempool (Debug msg vm) = mempool vm" "notified (Debug msg vm) = notified vm"
  "DB (Debug msg vm) = DB vm"
  "mempool (NotifyBlockReady vm) = mempool vm"
  "notified (NotifyBlockReady vm) = Suc (notified vm)"
  by (simp_all add: Debug_def NotifyBlockReady_def)

subsection \<open>Evaluating the examples\<close>

lemma example_coercions:
  "toFnArg exampleRuntime \<lparr>Type = ''int32'', Value = GoFloat64 (Finite False 7 0)\<rparr> =
     Inr (GoInt32 7)"
  "toFnArg exampleRuntime \<lparr>Type = ''int32'', Value = GoInt32 5\<rparr> = Inr (GoInt32 5)"
  "toFnArg exampleRuntime \<lparr>Type = ''int64'', Value = GoString ''bad''\<rparr> =
     Inl (Errorf ''value '%v' is not convertible to int64'' [OpValue (GoString ''bad'')])"
  by (simp_all add: toFnArg_def ToLower_examples int32_of_float_def)

lemma example_validate:
  "validate exampleRequest = None"
  "validate (exampleRequest\<lparr>Args := as\<rparr>) = None"
  "validate (exampleRequest\<lparr>PrivateKey := k\<rparr>) = None"
  "validate (exampleRequest\<lparr>Args := as, PrivateKey := k\<rparr>) = None"
  "validate (exampleRequest\<lparr>Function := [], Args := as, PrivateKey := k\<rparr>) =
     Some (ErrorsNew ''function not specified'')"
  by (simp_all add: validate_def exampleRequest_def Equals_def Empty_def)

lemma example_keys:
  "ToPrivateKey exampleCollaborators exampleKey = Inr exampleKey"
  "ToPrivateKey exampleCollaborators [] = Inl (ErrorsNew ''bad key'')"
  by (simp_all add: exampleCollaborators_def exampleKey_def)

lemma example_Invoke:
  "Invoke exampleRuntime exampleCollaborators exampleRequest vm =
     (Inr 2, NotifyBlockReady (Debug ''in invoke'' vm
        \<lparr>mempool := mempool vm @ [(exampleKey, [1, 2])]\<rparr>))"
proof -
  have "Invoke exampleRuntime exampleCollaborators exampleRequest vm =
     (Inr (txID exampleCollaborators (exampleKey, [1, 2])),
      NotifyBlockReady (Debug ''in invoke'' vm
        \<lparr>mempool := mempool (Debug ''in invoke'' vm) @ [(exampleKey, [1, 2])]\<rparr>))"
    unfolding Invoke_def Let_def example_validate
    by (simp add: exampleRequest_def example_coercions example_keys)
       (simp add: exampleCollaborators_def)
  then show ?thesis
    by (simp add: pool_simps exampleCollaborators_def)
qed

lemma example_Invoke_bad_key:
  "Invoke exampleRuntime exampleCollaborators (exampleRequest\<lparr>PrivateKey := []\<rparr>) vm =
     (Inl (Errorf ''couldn't parse 'privateKey' to a SECP256K1R private key: %v''
        [OpErr (ErrorsNew ''bad key'')]), Debug ''in invoke'' vm)"
  unfolding Invoke_def Let_def example_validate
  by (simp add: exampleRequest_def example_coercions example_keys)

lemma example_CreateContract:
  "CreateContract exampleCollaborators \<lparr>Contract = c, SenderKey = exampleKey\<rparr> vm =
     (Inr (of_nat (length c)), NotifyBlockReady (Debug ''in createContract'' vm
        \<lparr>mempool := mempool vm @ [(exampleKey, c)]\<rparr>))"
  "CreateContract exampleCollaborators \<lparr>Contract = c, SenderKey = []\<rparr> vm =
     (Inl (Errorf ''couldn't parse 'privateKey' to a SECP256K1R private key: %v''
        [OpErr (ErrorsNew ''bad key'')]), Debug ''in createContract'' vm)"
  unfolding CreateContract_def Let_def
  by (simp_all add: example_keys pool_simps) (simp_all add: exampleCollaborators_def pool_simps)

subsection \<open>Admission to the pool\<close>

text \<open>
  Claim C2. Whenever \<open>Invoke\<close> or \<open>CreateContract\<close> returns an error, whichever step
  failed, the VM it leaves has the pool \<open>mempool\<close> of the VM it found and as many
  block-ready notifications: nothing was admitted and nothing was signalled.
\<close>

theorem rejected_leaves_pool:
  "(fst (Invoke rt ext args vm) = Inl e \<longrightarrow>
      mempool (snd (Invoke rt ext args vm)) = mempool vm
    \<and> notified (snd (Invoke rt ext args vm)) = notified vm)
 \<and> (fst (CreateContract ext cargs vm') = Inl e' \<longrightarrow>
      mempool (snd (CreateContract ext cargs vm')) = mempool vm'
    \<and> notified (snd (CreateContract ext cargs vm')) = notified vm')"
proof (intro conjI impI)
  assume "fst (Invoke rt ext args vm) = Inl e"
  then have "snd (Invoke rt ext args vm) = Debug ''in invoke'' vm"
    using Invoke_cases [of args rt ext vm] by auto
  then show "mempool (snd (Invoke rt ext args vm)) = mempool vm"
    and "notified (snd (Invoke rt ext args vm)) = notified vm"
    by (simp_all add: pool_simps)
next
  assume "fst (CreateContract ext cargs vm') = Inl e'"
  then have "snd (CreateContract ext cargs vm') = Debug ''in createContract'' vm'"
    using CreateContract_cases [of ext cargs vm'] by auto
  then show "mempool (snd (CreateContract ext cargs vm')) = mempool vm'"
    and "notified (snd (CreateContract ext cargs vm')) = notified vm'"
    by (simp_all add: pool_simps)
qed

theorem rejected_leaves_pool_witness:
  "fst (Invoke exampleRuntime exampleCollaborators (exampleRequest\<lparr>PrivateKey := []\<rparr>)
        (emptyVM\<lparr>mempool := [(exampleKey, [9])], notified := 1\<rparr>)) =
     Inl (Errorf ''couldn't parse 'privateKey' to a SECP256K1R private key: %v''
        [OpErr (ErrorsNew ''bad key'')])
 \<and> mempool (snd (Invoke exampleRuntime exampleCollaborators (exampleRequest\<lparr>PrivateKey := []\<rparr>)
        (emptyVM\<lparr>mempool := [(exampleKey, [9])], notified := 1\<rparr>))) = [(exampleKey, [9])]
 \<and> notified (snd (Invoke exampleRuntime exampleCollaborators (exampleRequest\<lparr>PrivateKey := []\<rparr>)
        (emptyVM\<lparr>mempool := [(exampleKey, [9])], notified := 1\<rparr>))) = 1
 \<and> fst (CreateContract exampleCollaborators \<lparr>Contract = [0, 97, 115, 109], SenderKey = []\<rparr>
        (emptyVM\<lparr>mempool := [(exampleKey, [9])], notified := 1\<rparr>)) =
     Inl (Errorf ''couldn't parse 'privateKey' to a SECP256K1R private key: %v''
        [OpErr (ErrorsNew ''bad key'')])
 \<and> mempool (snd (CreateContract exampleCollaborators \<lparr>Contract = [0, 97, 115, 109], SenderKey = []\<rparr>
        (emptyVM\<lparr>mempool := [(exampleKey, [9])], notified := 1\<rparr>))) = [(exampleKey, [9])]
 \<and> notified (snd (CreateContract exampleCollaborators \<lparr>Contract = [0, 97, 115, 109], SenderKey = []\<rparr>
        (emptyVM\<lparr>mempool := [(exampleKey, [9])], notified := 1\<rparr>))) = 1"
  using rejected_leaves_pool [of exampleRuntime exampleCollaborators
      "exampleRequest\<lparr>PrivateKey := []\<rparr>"
      "emptyVM\<lparr>mempool := [(exampleKey, [9])], notified := 1\<rparr>"
      "Errorf ''couldn't parse 'privateKey' to a SECP256K1R private key: %v''
        [OpErr (ErrorsNew ''bad key'')]"
      "\<lparr>Contract = [0, 97, 115, 109], SenderKey = []\<rparr>"
      "emptyVM\<lparr>mempool := [(exampleKey, [9])], notified := 1\<rparr>"
      "Errorf ''couldn't parse 'privateKey' to a SECP256K1R private key: %v''
        [OpErr (ErrorsNew ''bad key'')]"]
  by (simp add: example_Invoke_bad_key example_CreateContract emptyVM_def)

text \<open>
  Claim C3. Whenever \<open>Invoke\<close> succeeds, the arguments converted, the key parsed and
  \<open>newInvokeTx\<close> built a transaction from them; the pool it leaves is the pool it found
  with that transaction appended as the last element, \<open>NotifyBlockReady\<close> was called once,
  and the ID it returns is the \<open>ID()\<close> of that transaction. \<open>CreateContract\<close> does the
  same with the transaction that \<open>newCreateContractTx\<close> built.
\<close>

theorem admitted_appends_and_notifies:
  "(fst (Invoke rt ext args vm) = Inr txid \<longrightarrow>
      (\<exists>fnArgs key tx.
          coerceArgs rt (Args args) 0 (replicate (length (Args args)) GoNil) = Inr fnArgs
        \<and> ToPrivateKey ext (PrivateKey args) = Inr key
        \<and> newInvokeTx ext (ContractID args) (Function args) fnArgs (ByteArgs args) key = Inr tx
        \<and> mempool (snd (Invoke rt ext args vm)) = mempool vm @ [tx]
        \<and> notified (snd (Invoke rt ext args vm)) = Suc (notified vm)
        \<and> txid = txID ext tx))
 \<and> (fst (CreateContract ext cargs vm') = Inr cid \<longrightarrow>
      (\<exists>key tx.
          ToPrivateKey ext (SenderKey cargs) = Inr key
        \<and> newCreateContractTx ext (Contract cargs) key = Inr tx
        \<and> mempool (snd (CreateContract ext cargs vm')) = mempool vm' @ [tx]
        \<and> notified (snd (CreateContract ext cargs vm')) = Suc (notified vm')
        \<and> cid = txID ext tx))"
proof (intro conjI impI)
  assume ok: "fst (Invoke rt ext args vm) = Inr txid"
  from Invoke_cases [of args rt ext vm] ok
  obtain fnArgs key tx where
    "coerceArgs rt (Args args) 0 (replicate (length (Args args)) GoNil) = Inr fnArgs"
    "ToPrivateKey ext (PrivateKey args) = Inr key"
    "newInvokeTx ext (ContractID args) (Function args) fnArgs (ByteArgs args) key = Inr tx"
    "Invoke rt ext args vm =
      (Inr (txID ext tx),
       NotifyBlockReady (Debug ''in invoke'' vm
         \<lparr>mempool := mempool (Debug ''in invoke'' vm) @ [tx]\<rparr>))"
    by auto
  with ok show "\<exists>fnArgs key tx.
          coerceArgs rt (Args args) 0 (replicate (length (Args args)) GoNil) = Inr fnArgs
        \<and> ToPrivateKey ext (PrivateKey args) = Inr key
        \<and> newInvokeTx ext (ContractID args) (Function args) fnArgs (ByteArgs args) key = Inr tx
        \<and> mempool (snd (Invoke rt ext args vm)) = mempool vm @ [tx]
        \<and> notified (snd (Invoke rt ext args vm)) = Suc (notified vm)
        \<and> txid = txID ext tx"
    by (simp add: pool_simps)
next
  assume ok: "fst (CreateContract ext cargs vm') = Inr cid"
  from CreateContract_cases [of ext cargs vm'] ok
  obtain key tx where
    "ToPrivateKey ext (SenderKey cargs) = Inr key"
    "newCreateContractTx ext (Contract cargs) key = Inr tx"
    "CreateContract ext cargs vm' =
      (Inr (txID ext tx),
       NotifyBlockReady (Debug ''in createContract'' vm'
         \<lparr>mempool := mempool (Debug ''in createContract'' vm') @ [tx]\<rparr>))"
    by auto
  with ok show "\<exists>key tx.
          ToPrivateKey ext (SenderKey cargs) = Inr key
        \<and> newCreateContractTx ext (Contract cargs) key = Inr tx
        \<and> mempool (snd (CreateContract ext cargs vm')) = mempool vm' @ [tx]
        \<and> notified (snd (CreateContract ext cargs vm')) = Suc (notified vm')
        \<and> cid = txID ext tx"
    by (simp add: pool_simps)
qed

theorem admitted_appends_and_notifies_witness:
  "fst (Invoke exampleRuntime exampleCollaborators exampleRequest
        (emptyVM\<lparr>mempool := [(exampleKey, [9])], notified := 1\<rparr>)) = Inr 2
 \<and> mempool (snd (Invoke exampleRuntime exampleCollaborators exampleRequest
        (emptyVM\<lparr>mempool := [(exampleKey, [9])], notified := 1\<rparr>))) =
      [(exampleKey, [9]), (exampleKey, [1, 2])]
 \<and> notified (snd (Invoke exampleRuntime exampleCollaborators exampleRequest
        (emptyVM\<lparr>mempool := [(exampleKey, [9])], notified := 1\<rparr>))) = 2
 \<and> txID exampleCollaborators (exampleKey, [1, 2]) = 2
 \<and> fst (CreateContract exampleCollaborators \<lparr>Contract = [0, 97, 115, 109], SenderKey = exampleKey\<rparr>
        (emptyVM\<lparr>mempool := [(exampleKey, [9])], notified := 1\<rparr>)) = Inr 4
 \<and> mempool (snd (CreateContract exampleCollaborators
        \<lparr>Contract = [0, 97, 115, 109], SenderKey = exampleKey\<rparr>
        (emptyVM\<lparr>mempool := [(exampleKey, [9])], notified := 1\<rparr>))) =
      [(exampleKey, [9]), (exampleKey, [0, 97, 115, 109])]
 \<and> notified (snd (CreateContract exampleCollaborators
        \<lparr>Contract = [0, 97, 115, 109], SenderKey = exampleKey\<rparr>
        (emptyVM\<lparr>mempool := [(exampleKey, [9])], notified := 1\<rparr>))) = 2"
  using admitted_appends_and_notifies [of exampleRuntime exampleCollaborators exampleRequest
      "emptyVM\<lparr>mempool := [(exampleKey, [9])], notified := 1\<rparr>" 2
      "\<lparr>Contract = [0, 97, 115, 109], SenderKey = exampleKey\<rparr>"
      "emptyVM\<lparr>mempool := [(exampleKey, [9])], notified := 1\<rparr>" 4]
  by (simp add: example_Invoke example_CreateContract pool_simps emptyVM_def)
     (simp add: exampleCollaborators_def)

subsection \<open>The order of the checks in \<open>Invoke\<close>\<close>

lemma validate_update:
  "validate (args\<lparr>Args := as, PrivateKey := key\<rparr>) = validate args"
  "validate (args\<lparr>Args := as\<rparr>) = validate args"
  "validate (args\<lparr>PrivateKey := key\<rparr>) = validate args"
  by (simp_all add: validate_def)

text \<open>
  Claim C4. \<open>Invoke\<close> returns a validation error exactly when the contract ID of the
  request equals \<open>ids.Empty\<close> or its function is the empty string. In that case the error
  and the VM are the same whatever the arguments, the signing key, the runtime and the
  collaborators are: nothing was converted and no key was parsed. The error is not an
  argument error.
\<close>

theorem Invoke_validation_first:
  fixes ext :: "('key, 'tx) collaborators" and vm :: "('tx, 'r) VM"
  shows
  "((\<exists>e. fst (Invoke rt ext args vm) = Inl e \<and> isValidationError e) \<longleftrightarrow>
      (Equals (ContractID args) Empty \<or> Function args = []))
 \<and> (Equals (ContractID args) Empty \<or> Function args = [] \<longrightarrow>
      (\<exists>e. isValidationError e \<and> \<not> isArgumentError e \<and>
        (\<forall>rt' (ext' :: ('key, 'tx) collaborators) as key.
           Invoke rt' ext' (args\<lparr>Args := as, PrivateKey := key\<rparr>) vm =
             (Inl e, Debug ''in invoke'' vm))))"
proof (intro conjI impI iffI)
  assume "\<exists>e. fst (Invoke rt ext args vm) = Inl e \<and> isValidationError e"
  then obtain e where e: "fst (Invoke rt ext args vm) = Inl e" "isValidationError e"
    by blast
  have "validate args \<noteq> None"
  proof
    assume "validate args = None"
    with e Invoke_cases [of args rt ext vm] show False
      by (cases e) auto
  qed
  then show "Equals (ContractID args) Empty \<or> Function args = []"
    by (simp add: validate_None_iff)
next
  assume "Equals (ContractID args) Empty \<or> Function args = []"
  then obtain err where "validate args = Some err"
    using validate_None_iff [of args] by (cases "validate args") auto
  then show "\<exists>e. fst (Invoke rt ext args vm) = Inl e \<and> isValidationError e"
    by (simp add: Invoke_invalid)
next
  assume "Equals (ContractID args) Empty \<or> Function args = []"
  then obtain err where err: "validate args = Some err"
    using validate_None_iff [of args] by (cases "validate args") auto
  let ?e = "Errorf ''arguments failed validation: %v'' [OpErr err]"
  have "validate (args\<lparr>Args := as, PrivateKey := key\<rparr>) = Some err" for as key
    using err by (simp only: validate_update)
  then have "Invoke rt' ext' (args\<lparr>Args := as, PrivateKey := key\<rparr>) vm =
      (Inl ?e, Debug ''in invoke'' vm)" for rt' as key and ext' :: "('key, 'tx) collaborators"
    by (rule Invoke_invalid)
  moreover have "isValidationError ?e" and "\<not> isArgumentError ?e"
    by simp_all
  ultimately show "\<exists>e. isValidationError e \<and> \<not> isArgumentError e \<and>
        (\<forall>rt' (ext' :: ('key, 'tx) collaborators) as key.
           Invoke rt' ext' (args\<lparr>Args := as, PrivateKey := key\<rparr>) vm =
             (Inl e, Debug ''in invoke'' vm))"
    by blast
qed

theorem Invoke_validation_first_witness:
  "Function (exampleRequest\<lparr>Function := []\<rparr>) = []
 \<and> Invoke exampleRuntime exampleCollaborators
      (exampleRequest\<lparr>Function := [],
         Args := [\<lparr>Type = ''int64'', Value = GoString ''bad''\<rparr>], PrivateKey := []\<rparr>) emptyVM =
      (Inl (Errorf ''arguments failed validation: %v'' [OpErr (ErrorsNew ''function not specified'')]),
       Debug ''in invoke'' emptyVM)
 \<and> \<not> (\<exists>e. fst (Invoke exampleRuntime exampleCollaborators exampleRequest emptyVM) = Inl e
        \<and> isValidationError e)"
proof -
  note inst = Invoke_validation_first [of exampleRuntime exampleCollaborators
      "exampleRequest\<lparr>Function := []\<rparr>" emptyVM]
  have empty: "Function (exampleRequest\<lparr>Function := []\<rparr>) = []"
    by simp
  from inst empty obtain e where e: "isValidationError e"
    "\<And>rt' (ext' :: (bytes, bytes \<times> bytes) collaborators) as key.
       Invoke rt' ext' (exampleRequest\<lparr>Function := [], Args := as, PrivateKey := key\<rparr>) emptyVM =
         (Inl e, Debug ''in invoke'' emptyVM)"
    by auto
  have "Invoke exampleRuntime exampleCollaborators
      (exampleRequest\<lparr>Function := [],
         Args := [\<lparr>Type = ''int64'', Value = GoString ''bad''\<rparr>], PrivateKey := []\<rparr>) emptyVM =
      (Inl (Errorf ''arguments failed validation: %v''
         [OpErr (ErrorsNew ''function not specified'')]), Debug ''in invoke'' emptyVM)"
    by (rule Invoke_invalid) (rule example_validate)
  with e(2) [where rt' = exampleRuntime and ext' = exampleCollaborators
      and as = "[\<lparr>Type = ''int64'', Value = GoString ''bad''\<rparr>]" and key = "[]"]
  have "e = Errorf ''arguments failed validation: %v''
      [OpErr (ErrorsNew ''function not specified'')]"
    by simp
  with e(2) have first: "Invoke exampleRuntime exampleCollaborators
      (exampleRequest\<lparr>Function := [],
         Args := [\<lparr>Type = ''int64'', Value = GoString ''bad''\<rparr>], PrivateKey := []\<rparr>) emptyVM =
      (Inl (Errorf ''arguments failed validation: %v'' [OpErr (ErrorsNew ''function not specified'')]),
       Debug ''in invoke'' emptyVM)"
    by simp
  have valid: "\<not> (Equals (ContractID exampleRequest) Empty \<or> Function exampleRequest = [])"
    by (simp add: exampleRequest_def Equals_def Empty_def)
  have second: "\<not> (\<exists>e. fst (Invoke exampleRuntime exampleCollaborators exampleRequest emptyVM) = Inl e
        \<and> isValidationError e)"
    using Invoke_validation_first [of exampleRuntime exampleCollaborators exampleRequest emptyVM]
      valid by blast
  show ?thesis
    using empty first second by blast
qed

text \<open>
  Claim C5, as the code has it. For a request that passes validation, at the first
  argument that does not convert \<open>Invoke\<close> returns an argument error made of that
  argument (its declared type and its value) and the error of \<open>toFnArg\<close>; the position of
  the argument is not part of the error. The result is the same whatever arguments
  follow and whatever the collaborators are, and the VM it leaves differs from the VM it
  found in the debug log only: no later argument was converted, no key parsed, and the
  arguments converted before left no trace.
\<close>

theorem Invoke_fail_fast:
  fixes ext :: "('key, 'tx) collaborators" and vm :: "('tx, 'r) VM"
  shows
  "validate args = None \<and> Args args = pre @ bad # rest \<and> list_all (coercible rt) pre
     \<and> toFnArg rt bad = Inl err \<longrightarrow>
   (\<forall>rest' (ext' :: ('key, 'tx) collaborators).
      Invoke rt ext' (args\<lparr>Args := pre @ bad # rest'\<rparr>) vm =
        (Inl (Errorf ''couldn't parse arg '%+v': %s'' [OpArg bad, OpErr err]),
         Debug ''in invoke'' vm))
 \<and> Invoke rt ext args vm =
      (Inl (Errorf ''couldn't parse arg '%+v': %s'' [OpArg bad, OpErr err]),
       Debug ''in invoke'' vm)
 \<and> mempool (snd (Invoke rt ext args vm)) = mempool vm
 \<and> notified (snd (Invoke rt ext args vm)) = notified vm"
proof (intro impI)
  assume h: "validate args = None \<and> Args args = pre @ bad # rest \<and> list_all (coercible rt) pre
     \<and> toFnArg rt bad = Inl err"
  let ?e = "Errorf ''couldn't parse arg '%+v': %s'' [OpArg bad, OpErr err]"
  have any: "Invoke rt ext' (args\<lparr>Args := pre @ bad # rest'\<rparr>) vm = (Inl ?e, Debug ''in invoke'' vm)"
    for rest' and ext' :: "('key, 'tx) collaborators"
  proof (rule Invoke_bad_argument)
    show "validate (args\<lparr>Args := pre @ bad # rest'\<rparr>) = None"
      using h by (simp only: validate_update)
    show "coerceArgs rt (Args (args\<lparr>Args := pre @ bad # rest'\<rparr>)) 0
        (replicate (length (Args (args\<lparr>Args := pre @ bad # rest'\<rparr>))) GoNil) = Inl ?e"
      using h by (simp add: coerceArgs_first_failure)
  qed
  have "args\<lparr>Args := pre @ bad # rest\<rparr> = args"
    using h by simp
  with any [of ext rest] have here: "Invoke rt ext args vm = (Inl ?e, Debug ''in invoke'' vm)"
    by simp
  show "(\<forall>rest' (ext' :: ('key, 'tx) collaborators).
      Invoke rt ext' (args\<lparr>Args := pre @ bad # rest'\<rparr>) vm = (Inl ?e, Debug ''in invoke'' vm))
    \<and> Invoke rt ext args vm = (Inl ?e, Debug ''in invoke'' vm)
    \<and> mempool (snd (Invoke rt ext args vm)) = mempool vm
    \<and> notified (snd (Invoke rt ext args vm)) = notified vm"
    using any here by (simp add: pool_simps)
qed

lemma example_bad_argument:
  "validate (exampleRequest\<lparr>Args := as\<rparr>) = None"
  "coercible exampleRuntime \<lparr>Type = ''int32'', Value = GoInt32 5\<rparr>"
  "\<not> coercible exampleRuntime \<lparr>Type = ''int64'', Value = GoString ''bad''\<rparr>"
  by (simp_all add: example_validate coercible_def example_coercions)

theorem Invoke_fail_fast_witness:
  "validate (exampleRequest\<lparr>Args := [\<lparr>Type = ''int32'', Value = GoInt32 5\<rparr>,
       \<lparr>Type = ''int64'', Value = GoString ''bad''\<rparr>,
       \<lparr>Type = ''float'', Value = GoNil\<rparr>]\<rparr>) = None
 \<and> list_all (coercible exampleRuntime) [\<lparr>Type = ''int32'', Value = GoInt32 5\<rparr>]
 \<and> toFnArg exampleRuntime \<lparr>Type = ''int64'', Value = GoString ''bad''\<rparr> =
      Inl (Errorf ''value '%v' is not convertible to int64'' [OpValue (GoString ''bad'')])
 \<and> Invoke exampleRuntime exampleCollaborators
      (exampleRequest\<lparr>Args := [\<lparr>Type = ''int32'', Value = GoInt32 5\<rparr>,
         \<lparr>Type = ''int64'', Value = GoString ''bad''\<rparr>,
         \<lparr>Type = ''float'', Value = GoNil\<rparr>]\<rparr>) emptyVM =
      (Inl (Errorf ''couldn't parse arg '%+v': %s''
         [OpArg \<lparr>Type = ''int64'', Value = GoString ''bad''\<rparr>,
          OpErr (Errorf ''value '%v' is not convertible to int64'' [OpValue (GoString ''bad'')])]),
       Debug ''in invoke'' emptyVM)"
  using Invoke_fail_fast [of
      "exampleRequest\<lparr>Args := [\<lparr>Type = ''int32'', Value = GoInt32 5\<rparr>,
         \<lparr>Type = ''int64'', Value = GoString ''bad''\<rparr>,
         \<lparr>Type = ''float'', Value = GoNil\<rparr>]\<rparr>"
      "[\<lparr>Type = ''int32'', Value = GoInt32 5\<rparr>]"
      "\<lparr>Type = ''int64'', Value = GoString ''bad''\<rparr>"
      "[\<lparr>Type = ''float'', Value = GoNil\<rparr>]"
      exampleRuntime
      "Errorf ''value '%v' is not convertible to int64'' [OpValue (GoString ''bad'')]"
      emptyVM exampleCollaborators]
  by (simp add: example_bad_argument example_coercions)

text \<open>
  The error of \<open>Invoke\<close> does not tell the position of the argument: the same argument
  fails with the same error as the only argument and as the second of two.
\<close>

theorem Invoke_error_position_counterexample:
  "fst (Invoke exampleRuntime exampleCollaborators
      (exampleRequest\<lparr>Args := [\<lparr>Type = ''int64'', Value = GoString ''bad''\<rparr>]\<rparr>) emptyVM) =
     Inl (Errorf ''couldn't parse arg '%+v': %s''
       [OpArg \<lparr>Type = ''int64'', Value = GoString ''bad''\<rparr>,
        OpErr (Errorf ''value '%v' is not convertible to int64'' [OpValue (GoString ''bad'')])])
 \<and> fst (Invoke exampleRuntime exampleCollaborators
      (exampleRequest\<lparr>Args := [\<lparr>Type = ''int32'', Value = GoInt32 5\<rparr>,
         \<lparr>Type = ''int64'', Value = GoString ''bad''\<rparr>]\<rparr>) emptyVM) =
     Inl (Errorf ''couldn't parse arg '%+v': %s''
       [OpArg \<lparr>Type = ''int64'', Value = GoString ''bad''\<rparr>,
        OpErr (Errorf ''value '%v' is not convertible to int64'' [OpValue (GoString ''bad'')])])"
  by (simp add: Invoke_def Let_def example_bad_argument example_coercions)

text \<open>
  Claim C10. \<open>Invoke\<close> parses the signing key only once every argument has converted.
  A request with an argument that does not convert never fails with the key error.
  If it has passed validation, it fails with an argument error, the same whatever its
  signing key and whatever the collaborators are; so a request with an argument that
  does not convert and a key that does not parse fails with the argument error, not with
  the key error.
\<close>

theorem Invoke_arguments_before_key:
  fixes ext :: "('key, 'tx) collaborators" and vm :: "('tx, 'r) VM"
  shows
  "(bad \<in> set (Args args) \<and> \<not> coercible rt bad \<longrightarrow>
      (\<exists>e. fst (Invoke rt ext args vm) = Inl e \<and> \<not> isKeyError e))
 \<and> (validate args = None \<and> bad \<in> set (Args args) \<and> \<not> coercible rt bad \<longrightarrow>
      (\<exists>e. isArgumentError e \<and>
        (\<forall>(ext' :: ('key, 'tx) collaborators) key.
           Invoke rt ext' (args\<lparr>PrivateKey := key\<rparr>) vm = (Inl e, Debug ''in invoke'' vm))))
 \<and> (validate args = None \<and> bad \<in> set (Args args) \<and> \<not> coercible rt bad
      \<and> ToPrivateKey ext (PrivateKey args) = Inl keyErr \<longrightarrow>
      (\<exists>e. Invoke rt ext args vm = (Inl e, Debug ''in invoke'' vm)
         \<and> isArgumentError e \<and> \<not> isKeyError e))"
proof (intro conjI impI)
  assume h: "bad \<in> set (Args args) \<and> \<not> coercible rt bad"
  then obtain e where e:
    "coerceArgs rt (Args args) 0 (replicate (length (Args args)) GoNil) = Inl e"
    using coerceArgs_not_coercible by blast
  show "\<exists>e. fst (Invoke rt ext args vm) = Inl e \<and> \<not> isKeyError e"
  proof (cases "validate args")
    case (Some err)
    then show ?thesis by (simp add: Invoke_invalid)
  next
    case None
    have "isArgumentError e" using e by (rule coerceArgs_error)
    then have "\<not> isKeyError e" by (cases e) auto
    then show ?thesis using None e by (simp add: Invoke_bad_argument)
  qed
next
  assume h: "validate args = None \<and> bad \<in> set (Args args) \<and> \<not> coercible rt bad"
  then obtain e where e:
    "coerceArgs rt (Args args) 0 (replicate (length (Args args)) GoNil) = Inl e"
    using coerceArgs_not_coercible by blast
  have "Invoke rt ext' (args\<lparr>PrivateKey := key\<rparr>) vm = (Inl e, Debug ''in invoke'' vm)"
    for key and ext' :: "('key, 'tx) collaborators"
  proof (rule Invoke_bad_argument)
    show "validate (args\<lparr>PrivateKey := key\<rparr>) = None"
      using h by (simp only: validate_update)
    show "coerceArgs rt (Args (args\<lparr>PrivateKey := key\<rparr>)) 0
        (replicate (length (Args (args\<lparr>PrivateKey := key\<rparr>))) GoNil) = Inl e"
      using e by simp
  qed
  moreover have "isArgumentError e" using e by (rule coerceArgs_error)
  ultimately show "\<exists>e. isArgumentError e \<and>
        (\<forall>(ext' :: ('key, 'tx) collaborators) key.
           Invoke rt ext' (args\<lparr>PrivateKey := key\<rparr>) vm = (Inl e, Debug ''in invoke'' vm))"
    by blast
next
  assume h: "validate args = None \<and> bad \<in> set (Args args) \<and> \<not> coercible rt bad
      \<and> ToPrivateKey ext (PrivateKey args) = Inl keyErr"
  then obtain e where e:
    "coerceArgs rt (Args args) 0 (replicate (length (Args args)) GoNil) = Inl e"
    using coerceArgs_not_coercible by blast
  have arg: "isArgumentError e" using e by (rule coerceArgs_error)
  then have "\<not> isKeyError e" by (cases e) auto
  moreover have "Invoke rt ext args vm = (Inl e, Debug ''in invoke'' vm)"
    using h e by (simp add: Invoke_bad_argument)
  ultimately show "\<exists>e. Invoke rt ext args vm = (Inl e, Debug ''in invoke'' vm)
         \<and> isArgumentError e \<and> \<not> isKeyError e"
    using arg by blast
qed

theorem Invoke_arguments_before_key_witness:
  "validate (exampleRequest\<lparr>Args := [\<lparr>Type = ''int64'', Value = GoString ''bad''\<rparr>],
      PrivateKey := []\<rparr>) = None
 \<and> \<not> coercible exampleRuntime \<lparr>Type = ''int64'', Value = GoString ''bad''\<rparr>
 \<and> ToPrivateKey exampleCollaborators
      (PrivateKey (exampleRequest\<lparr>Args := [\<lparr>Type = ''int64'', Value = GoString ''bad''\<rparr>],
         PrivateKey := []\<rparr>)) = Inl (ErrorsNew ''bad key'')
 \<and> Invoke exampleRuntime exampleCollaborators
      (exampleRequest\<lparr>Args := [\<lparr>Type = ''int64'', Value = GoString ''bad''\<rparr>],
         PrivateKey := []\<rparr>) emptyVM =
      (Inl (Errorf ''couldn't parse arg '%+v': %s''
         [OpArg \<lparr>Type = ''int64'', Value = GoString ''bad''\<rparr>,
          OpErr (Errorf ''value '%v' is not convertible to int64'' [OpValue (GoString ''bad'')])]),
       Debug ''in invoke'' emptyVM)
 \<and> isArgumentError (Errorf ''couldn't parse arg '%+v': %s''
         [OpArg \<lparr>Type = ''int64'', Value = GoString ''bad''\<rparr>,
          OpErr (Errorf ''value '%v' is not convertible to int64'' [OpValue (GoString ''bad'')])])
 \<and> \<not> isKeyError (Errorf ''couldn't parse arg '%+v': %s''
         [OpArg \<lparr>Type = ''int64'', Value = GoString ''bad''\<rparr>,
          OpErr (Errorf ''value '%v' is not convertible to int64'' [OpValue (GoString ''bad'')])])"
proof -
  let ?bad = "\<lparr>Type = ''int64'', Value = GoString ''bad''\<rparr>"
  let ?req = "exampleRequest\<lparr>Args := [?bad], PrivateKey := []\<rparr>"
  let ?err = "Errorf ''couldn't parse arg '%+v': %s''
         [OpArg ?bad,
          OpErr (Errorf ''value '%v' is not convertible to int64'' [OpValue (GoString ''bad'')])]"
  have v: "validate ?req = None" and m: "?bad \<in> set (Args ?req)"
    and n: "\<not> coercible exampleRuntime ?bad"
    and k: "ToPrivateKey exampleCollaborators (PrivateKey ?req) = Inl (ErrorsNew ''bad key'')"
    by (simp_all add: example_bad_argument example_validate example_keys)
  from Invoke_arguments_before_key [of ?bad ?req exampleRuntime exampleCollaborators emptyVM
      "ErrorsNew ''bad key''"] v m n k
  obtain e where e: "Invoke exampleRuntime exampleCollaborators ?req emptyVM =
      (Inl e, Debug ''in invoke'' emptyVM)" "isArgumentError e" "\<not> isKeyError e"
    by blast
  have "Invoke exampleRuntime exampleCollaborators ?req emptyVM =
      (Inl ?err, Debug ''in invoke'' emptyVM)"
    by (rule Invoke_bad_argument)
       (simp_all add: example_validate example_bad_argument example_coercions)
  with e(1) have "e = ?err" by simp
  with e v n k show ?thesis by simp
qed

subsection \<open>\<open>CreateContract\<close> and the contract's bytes\<close>

text \<open>
  Claim C7, as the code has it. \<open>CreateContract\<close> checks nothing about the bytes of the
  contract. It fails exactly when the key does not parse or \<open>newCreateContractTx\<close>
  returns an error; when the key parses and \<open>newCreateContractTx\<close> builds a transaction
  from the bytes, empty or not, the call succeeds and admits that transaction.
\<close>

theorem CreateContract_checks_nothing:
  fixes ext :: "('key, 'tx) collaborators" and vm :: "('tx, 'r) VM"
  shows
  "(ToPrivateKey ext (SenderKey args) = Inr key
      \<and> newCreateContractTx ext (Contract args) key = Inr tx \<longrightarrow>
      fst (CreateContract ext args vm) = Inr (txID ext tx)
    \<and> mempool (snd (CreateContract ext args vm)) = mempool vm @ [tx])
 \<and> ((\<exists>e. fst (CreateContract ext args vm) = Inl e) \<longleftrightarrow>
      (\<exists>e. ToPrivateKey ext (SenderKey args) = Inl e)
    \<or> (\<exists>k e. ToPrivateKey ext (SenderKey args) = Inr k
          \<and> newCreateContractTx ext (Contract args) k = Inl e))"
proof (intro conjI impI)
  assume "ToPrivateKey ext (SenderKey args) = Inr key
      \<and> newCreateContractTx ext (Contract args) key = Inr tx"
  then show "fst (CreateContract ext args vm) = Inr (txID ext tx)"
    and "mempool (snd (CreateContract ext args vm)) = mempool vm @ [tx]"
    by (simp_all add: CreateContract_def Let_def pool_simps)
next
  show "(\<exists>e. fst (CreateContract ext args vm) = Inl e) \<longleftrightarrow>
      (\<exists>e. ToPrivateKey ext (SenderKey args) = Inl e)
    \<or> (\<exists>k e. ToPrivateKey ext (SenderKey args) = Inr k
          \<and> newCreateContractTx ext (Contract args) k = Inl e)"
    using CreateContract_cases [of ext args vm] by auto
qed

theorem CreateContract_checks_nothing_witness:
  "Contract \<lparr>Contract = [], SenderKey = exampleKey\<rparr> = []
 \<and> ToPrivateKey exampleCollaborators exampleKey = Inr exampleKey
 \<and> newCreateContractTx exampleCollaborators [] exampleKey = Inr (exampleKey, [])
 \<and> fst (CreateContract exampleCollaborators \<lparr>Contract = [], SenderKey = exampleKey\<rparr> emptyVM) =
      Inr (txID exampleCollaborators (exampleKey, []))
 \<and> mempool (snd (CreateContract exampleCollaborators
      \<lparr>Contract = [], SenderKey = exampleKey\<rparr> emptyVM)) = [(exampleKey, [])]"
proof -
  have k: "ToPrivateKey exampleCollaborators exampleKey = Inr exampleKey"
    by (rule example_keys)
  have t: "newCreateContractTx exampleCollaborators [] exampleKey = Inr (exampleKey, [])"
    by (simp add: exampleCollaborators_def)
  show ?thesis
    using k t CreateContract_checks_nothing [of exampleCollaborators
      "\<lparr>Contract = [], SenderKey = exampleKey\<rparr>" exampleKey "(exampleKey, [])" emptyVM]
    by (simp add: emptyVM_def)
qed

text \<open>
  With collaborators that accept them, empty contract bytes are admitted.
\<close>

theorem CreateContract_empty_bytes_counterexample:
  "Contract \<lparr>Contract = [], SenderKey = exampleKey\<rparr> = []
 \<and> fst (CreateContract exampleCollaborators \<lparr>Contract = [], SenderKey = exampleKey\<rparr> emptyVM) =
      Inr 0
 \<and> mempool (snd (CreateContract exampleCollaborators
      \<lparr>Contract = [], SenderKey = exampleKey\<rparr> emptyVM)) = [(exampleKey, [])]
 \<and> notified (snd (CreateContract exampleCollaborators
      \<lparr>Contract = [], SenderKey = exampleKey\<rparr> emptyVM)) = 1"
  by (simp add: example_CreateContract pool_simps emptyVM_def)

subsection \<open>\<open>GetTx\<close>\<close>

text \<open>
  Claim C8. When the store holds a record for the ID, \<open>GetTx\<close> returns that record;
  when it holds none, \<open>GetTx\<close> fails with the error \<open>couldn't find tx with ID %s\<close>
  formatted with the ID. In both cases the VM is returned as it was, and the result
  is the same whatever the pool holds: \<open>GetTx\<close> neither reads nor writes the pool.
\<close>

theorem GetTx_lookup:
  fixes vm :: "('tx, 'r) VM"
  shows
  "(DB vm txid = Some tx \<longrightarrow> GetTx txid vm = (Inr tx, vm))
 \<and> (DB vm txid = None \<longrightarrow>
      GetTx txid vm = (Inl (Errorf ''couldn't find tx with ID %s'' [OpID txid]), vm))
 \<and> fst (GetTx txid (vm\<lparr>mempool := pool\<rparr>)) = fst (GetTx txid vm)
 \<and> mempool (snd (GetTx txid vm)) = mempool vm"
  by (cases "DB vm txid") (simp_all add: GetTx_def getTx_def)

theorem GetTx_lookup_witness:
  "DB (emptyVM\<lparr>DB := [5 \<mapsto> ''stored'']\<rparr>) 5 = Some ''stored''
 \<and> GetTx 5 (emptyVM\<lparr>DB := [5 \<mapsto> ''stored'']\<rparr>) =
      (Inr ''stored'', emptyVM\<lparr>DB := [5 \<mapsto> ''stored'']\<rparr>)
 \<and> DB emptyVM 6 = None
 \<and> GetTx 6 emptyVM = (Inl (Errorf ''couldn't find tx with ID %s'' [OpID 6]), emptyVM)"
  using GetTx_lookup [of "emptyVM\<lparr>DB := [5 \<mapsto> ''stored'']\<rparr>" 5 "''stored''" "[]"]
    GetTx_lookup [of emptyVM 6 "''stored''" "[]"]
  by (simp add: emptyVM_def)

end
